theory Spec2Isabelle
  imports Main "HOL-Library.AList"
begin

section \<open>Python values and exceptions\<close>

text \<open>
  The values that travel through the server: what the serializer decodes from a client,
  what a device operation returns, and what is sent back. \<open>PFloat m e\<close> carries a float
  opaquely (no arithmetic is done on it). \<open>PDict\<close> is an association list; a lookup finds
  the first entry of a key. \<open>PMethod n\<close> is the bound method object named \<open>n\<close> of the
  device: what \<^verbatim>\<open>getattr(self.tem, n)\<close> gives for a method, before it is called.
\<close>

datatype pyval =
    PNone
  | PBool bool
  | PInt int
  | PFloat int int
  | PStr string
  | PTuple "pyval list"
  | PList "pyval list"
  | PDict "(pyval \<times> pyval) list"
  | PMethod string

text \<open>
  An exception object, as far as the server looks at it: \<^verbatim>\<open>e.__class__.__name__\<close> and
  \<^verbatim>\<open>e.args\<close>.
\<close>

datatype exn = Exn (ename: string) (eargs: "pyval list")

text \<open>
  What the evaluation of a command raises: \<open>Error e\<close>, an instance of a subclass of
  \<^verbatim>\<open>Exception\<close>, which the handler \<^verbatim>\<open>except Exception\<close> of \<^verbatim>\<open>DeviceServer.run\<close>
  catches; or \<open>Signal e\<close>, an instance of a class that derives from
  \<^verbatim>\<open>BaseException\<close> only (\<^verbatim>\<open>SystemExit\<close>, \<^verbatim>\<open>KeyboardInterrupt\<close>,
  \<^verbatim>\<open>GeneratorExit\<close>), which that handler lets through.
\<close>

datatype raised = Error exn | Signal exn

fun type_name :: "pyval \<Rightarrow> string" where
  "type_name PNone = ''NoneType''"
| "type_name (PBool _) = ''bool''"
| "type_name (PInt _) = ''int''"
| "type_name (PFloat _ _) = ''float''"
| "type_name (PStr _) = ''str''"
| "type_name (PTuple _) = ''tuple''"
| "type_name (PList _) = ''list''"
| "type_name (PDict _) = ''dict''"
| "type_name (PMethod _) = ''method''"

text \<open>
  The errors the interpreter itself raises. Their class names are fixed by the language;
  the message texts follow CPython 3 in outline only (they vary between versions), and no
  theorem below depends on a message.
\<close>

definition quoted :: "string \<Rightarrow> string" where
  "quoted s = CHR 0x27 # s @ [CHR 0x27]"

definition AttributeError :: "string \<Rightarrow> string \<Rightarrow> exn" where
  "AttributeError cls name =
     Exn ''AttributeError'' [PStr (quoted cls @ '' object has no attribute '' @ quoted name)]"

definition TypeError :: "string \<Rightarrow> exn" where
  "TypeError msg = Exn ''TypeError'' [PStr msg]"

section \<open>The device session\<close>

text \<open>
  The object behind \<^verbatim>\<open>self.tem\<close>, with state of type \<open>'d\<close>. \<open>attributes\<close> is its
  attribute table in a state (\<open>None\<close>: no attribute of that name); \<open>invoke\<close> runs the
  method of a name on the unpacked positional and keyword arguments, returns or raises,
  and leaves the device in a new state.
\<close>

record 'd device =
  class_name :: string
  attributes :: "'d \<Rightarrow> string \<Rightarrow> pyval option"
  invoke :: "string \<Rightarrow> pyval list \<Rightarrow> (string \<times> pyval) list \<Rightarrow> 'd \<Rightarrow> (raised + pyval) \<times> 'd"

text \<open>\<^verbatim>\<open>getattr(self.tem, func_name)\<close>: the name must be a string, and must be known.\<close>

definition py_getattr :: "'d device \<Rightarrow> 'd \<Rightarrow> pyval \<Rightarrow> exn + pyval" where
  "py_getattr D s name =
     (case name of
        PStr n \<Rightarrow>
          (case attributes D s n of
             None \<Rightarrow> Inl (AttributeError (class_name D) n)
           | Some v \<Rightarrow> Inr v)
      | _ \<Rightarrow> Inl (TypeError (''attribute name must be string, not ''
                              @ quoted (type_name name))))"

text \<open>\<^verbatim>\<open>**kwargs\<close> needs a mapping, \<^verbatim>\<open>*args\<close> an iterable.\<close>

definition unpack_kwargs :: "pyval \<Rightarrow> exn + (pyval \<times> pyval) list" where
  "unpack_kwargs kwargs =
     (case kwargs of
        PDict kvs \<Rightarrow> Inr kvs
      | _ \<Rightarrow> Inl (TypeError (''argument after ** must be a mapping, not '' @ type_name kwargs)))"

definition unpack_args :: "pyval \<Rightarrow> exn + pyval list" where
  "unpack_args args =
     (case args of
        PTuple xs \<Rightarrow> Inr xs
      | PList xs \<Rightarrow> Inr xs
      | PStr cs \<Rightarrow> Inr (map (\<lambda>c. PStr [c]) cs)
      | PDict kvs \<Rightarrow> Inr (map fst kvs)
      | _ \<Rightarrow> Inl (TypeError (''argument after * must be an iterable, not '' @ type_name args)))"

fun keyword_args :: "(pyval \<times> pyval) list \<Rightarrow> exn + (string \<times> pyval) list" where
  "keyword_args [] = Inr []"
| "keyword_args ((PStr k, v) # kvs) =
     (case keyword_args kvs of Inl e \<Rightarrow> Inl e | Inr ks \<Rightarrow> Inr ((k, v) # ks))"
| "keyword_args (_ # kvs) = Inl (TypeError ''keywords must be strings'')"

text \<open>
  The call \<^verbatim>\<open>f(*args, **kwargs)\<close>: the arguments are unpacked, then \<open>f\<close> must be
  callable, then the method runs. Every failure before the method runs is a
  \<^verbatim>\<open>TypeError\<close>, an \<open>Error\<close>, and leaves the device as it was.
\<close>

definition py_call :: "'d device \<Rightarrow> 'd \<Rightarrow> pyval \<Rightarrow> pyval \<Rightarrow> pyval \<Rightarrow> (raised + pyval) \<times> 'd" where
  "py_call D s f args kwargs =
     (case unpack_kwargs kwargs of
        Inl e \<Rightarrow> (Inl (Error e), s)
      | Inr kvs \<Rightarrow>
          (case unpack_args args of
             Inl e \<Rightarrow> (Inl (Error e), s)
           | Inr xs \<Rightarrow>
               (case f of
                  PMethod m \<Rightarrow>
                    (case keyword_args kvs of
                       Inl e \<Rightarrow> (Inl (Error e), s)
                     | Inr ks \<Rightarrow> invoke D m xs ks s)
                | _ \<Rightarrow>
                    (Inl (Error (TypeError (quoted (type_name f) @ '' object is not callable''))),
                     s))))"

text \<open>
  \<^verbatim>\<open>DeviceServer.evaluate\<close>:
  \<^verbatim>\<open>f = getattr(self.tem, func_name); ret = f(*args, **kwargs); return ret\<close>.
\<close>

definition evaluate :: "'d device \<Rightarrow> 'd \<Rightarrow> pyval \<Rightarrow> pyval \<Rightarrow> pyval \<Rightarrow> (raised + pyval) \<times> 'd" where
  "evaluate D s func_name args kwargs =
     (case py_getattr D s func_name of
        Inl e \<Rightarrow> (Inl (Error e), s)
      | Inr f \<Rightarrow> py_call D s f args kwargs)"

section \<open>The dispatch loop\<close>

text \<open>\<^verbatim>\<open>d.get(key, default)\<close> on a dictionary.\<close>

definition dict_get :: "(pyval \<times> pyval) list \<Rightarrow> string \<Rightarrow> pyval \<Rightarrow> pyval" where
  "dict_get kvs k dflt = (case map_of kvs (PStr k) of Some v \<Rightarrow> v | None \<Rightarrow> dflt)"


text \<open>Line 63: \<^verbatim>\<open>cmd.get('func_name', cmd.get('attr_name'))\<close>.\<close>

definition cmd_func_name :: "(pyval \<times> pyval) list \<Rightarrow> pyval" where
  "cmd_func_name kvs = dict_get kvs ''func_name'' (dict_get kvs ''attr_name'' PNone)"

text \<open>Lines 64 and 65: \<^verbatim>\<open>cmd.get('args', ())\<close> and \<^verbatim>\<open>cmd.get('kwargs', {})\<close>.\<close>

definition cmd_args :: "(pyval \<times> pyval) list \<Rightarrow> pyval" where
  "cmd_args kvs = dict_get kvs ''args'' (PTuple [])"

definition cmd_kwargs :: "(pyval \<times> pyval) list \<Rightarrow> pyval" where
  "cmd_kwargs kvs = dict_get kvs ''kwargs'' (PDict [])"

text \<open>
  One pass of the body of the loop of \<^verbatim>\<open>DeviceServer.run\<close> on a command taken from
  the request queue (lines 63 to 76). The three \<^verbatim>\<open>cmd.get\<close> are outside the
  \<^verbatim>\<open>try\<close>: on a value that is not a dictionary they raise \<^verbatim>\<open>AttributeError\<close>
  out of the loop (\<open>Inl\<close>). \<^verbatim>\<open>except Exception\<close> catches an \<open>Error\<close>; a
  \<open>Signal\<close> goes out of the loop too, and nothing is published. Otherwise the pass
  publishes one response (\<open>Inr\<close>), the pair \<^verbatim>\<open>(status, ret)\<close>.
\<close>

definition run_body :: "'d device \<Rightarrow> 'd \<Rightarrow> pyval \<Rightarrow> exn + (pyval \<times> 'd)" where
  "run_body D s cmd =
     (case cmd of
        PDict kvs \<Rightarrow>
          (let func_name = cmd_func_name kvs;
               args = cmd_args kvs;
               kwargs = cmd_kwargs kvs
           in case evaluate D s func_name args kwargs of
                (Inr ret, s') \<Rightarrow> Inr (PTuple [PInt 200, ret], s')
              | (Inl (Error e), s') \<Rightarrow>
                  Inr (PTuple [PInt 500, PTuple [PStr (ename e), PTuple (eargs e)]], s')
              | (Inl (Signal e), s') \<Rightarrow> Inl e)
      | _ \<Rightarrow> Inl (AttributeError (type_name cmd) ''get''))"




section \<open>The connection handler and the listener\<close>

text \<open>
  What one pass of the loop of \<^verbatim>\<open>handle\<close> observes, in the order it asks:
  \<^verbatim>\<open>stop_program_event.is_set()\<close>; the chunk that \<^verbatim>\<open>conn.recv(BUFSIZE)\<close> returns, or
  the exception it raises; the response that \<^verbatim>\<open>server_type.responses.get()\<close> returns
  (\<open>None\<close>: the call does not return, no response is ever published); the exception
  \<^verbatim>\<open>conn.send\<close> raises, if any. A pass that leaves the loop early does not ask for
  the later ones. \<^verbatim>\<open>server_type.requests.put(data)\<close> is taken to go through: the
  handler of a device kind puts its next command only after it got the response to the
  last one.
\<close>

record turn =
  stop_is_set :: bool
  received :: "exn + string"
  response :: "pyval option"
  send_raises :: "exn option"

datatype action = Put pyval | Send string

text \<open>
  How the handler stands at the end of the observations: blocked in \<^verbatim>\<open>conn.recv\<close>
  (the peer neither sends nor closes), blocked in \<^verbatim>\<open>responses.get\<close>, returned (the
  \<^verbatim>\<open>with conn\<close> block has closed the connection), or left by an exception (which closes the
  connection too).
\<close>

datatype handler_status = Receiving | Waiting | Returned | Raised exn

text \<open>
  \<^verbatim>\<open>handle(conn, server_type)\<close>. The functions \<^verbatim>\<open>loader\<close> and \<^verbatim>\<open>dumper\<close> of the
  module \<^verbatim>\<open>serializer\<close> are parameters, each returning a value or raising. The result
  lists the commands put on the request queue and the encoded responses sent to the
  client, in order.
\<close>

fun handle ::
  "(string \<Rightarrow> exn + pyval) \<Rightarrow> (pyval \<Rightarrow> exn + string) \<Rightarrow> turn list
     \<Rightarrow> action list \<times> handler_status" where
  "handle loader dumper [] = ([], Receiving)"
| "handle loader dumper (t # ts) =
     (if stop_is_set t then ([], Returned)
      else
        (case received t of
           Inl e \<Rightarrow> ([], Raised e)
         | Inr data \<Rightarrow>
             (if data = [] then ([], Returned)
              else
                (case loader data of
                   Inl e \<Rightarrow> ([], Raised e)
                 | Inr v \<Rightarrow>
                     (if v = PStr ''exit'' \<or> v = PStr ''kill'' then ([], Returned)
                      else
                        (case response t of
                           None \<Rightarrow> ([Put v], Waiting)
                         | Some r \<Rightarrow>
                             (case dumper r of
                                Inl e \<Rightarrow> ([Put v], Raised e)
                              | Inr bytes \<Rightarrow>
                                  (case send_raises t of
                                     Some e \<Rightarrow> ([Put v], Raised e)
                                   | None \<Rightarrow>
                                       (case handle loader dumper ts of
                                          (as, st) \<Rightarrow>
                                            (Put v # Send bytes # as, st))))))))))"

text \<open>
  What one pass of the accept loop of \<^verbatim>\<open>listen\<close> observes: the stop event, then the
  outcome of \<^verbatim>\<open>device_client.accept()\<close>: \<^verbatim>\<open>socket.timeout\<close> after \<^verbatim>\<open>TIMEOUT\<close>
  seconds, another exception, or a connection, given by what its handler will observe.
\<close>

datatype accepted = Timeout | Failure exn | Connection "turn list"

record visit =
  stop_seen :: bool
  accept :: accepted

datatype listener_status = Accepting | Serving | Stopped

text \<open>
  The accept loop of \<^verbatim>\<open>listen\<close> (lines 147 to 156). \<^verbatim>\<open>handle(connection, server_type)\<close>
  is an ordinary call inside the \<^verbatim>\<open>try\<close>: the loop goes on when the call has returned
  or raised (an exception is logged), and stays in the call otherwise. The result has
  one entry for each connection accepted: what its handler did and how it stands.
\<close>

fun listen ::
  "(string \<Rightarrow> exn + pyval) \<Rightarrow> (pyval \<Rightarrow> exn + string) \<Rightarrow> visit list
     \<Rightarrow> (action list \<times> handler_status) list \<times> listener_status" where
  "listen loader dumper [] = ([], Accepting)"
| "listen loader dumper (v # vs) =
     (if stop_seen v then ([], Stopped)
      else
        (case accept v of
           Timeout \<Rightarrow> listen loader dumper vs
         | Failure e \<Rightarrow> listen loader dumper vs
         | Connection turns \<Rightarrow>
             (case handle loader dumper turns of
                (as, Returned) \<Rightarrow>
                  (case listen loader dumper vs of (log, st) \<Rightarrow> ((as, Returned) # log, st))
              | (as, Raised e) \<Rightarrow>
                  (case listen loader dumper vs of (log, st) \<Rightarrow> ((as, Raised e) # log, st))
              | (as, blocked) \<Rightarrow> ([(as, blocked)], Serving))))"

section \<open>The channels\<close>

text \<open>
  \<^verbatim>\<open>queue.Queue(maxsize)\<close> of the standard library, as far as the server uses it. A
  queue with \<open>maxsize \<le> 0\<close> is unbounded. \<open>Queue_put\<close> on a full queue and
  \<open>Queue_get\<close> on an empty one do not go through (\<open>None\<close>): the caller blocks, or
  gets \<^verbatim>\<open>queue.Empty\<close> at the end of its timeout, and the queue is as it was.
\<close>

record queue =
  maxsize :: int
  items :: "pyval list"

definition Queue :: "int \<Rightarrow> queue" where
  "Queue m = \<lparr>maxsize = m, items = []\<rparr>"

definition Queue_full :: "queue \<Rightarrow> bool" where
  "Queue_full q = (0 < maxsize q \<and> maxsize q \<le> int (length (items q)))"

definition Queue_put :: "queue \<Rightarrow> pyval \<Rightarrow> queue option" where
  "Queue_put q x = (if Queue_full q then None else Some (q\<lparr>items := items q @ [x]\<rparr>))"

definition Queue_get :: "queue \<Rightarrow> (pyval \<times> queue) option" where
  "Queue_get q = (case items q of [] \<Rightarrow> None | x # xs \<Rightarrow> Some (x, q\<lparr>items := xs\<rparr>))"

text \<open>
  The two class attributes \<^verbatim>\<open>requests\<close> and \<^verbatim>\<open>responses\<close> of a server class, as
  \<^verbatim>\<open>TemServer\<close> and \<^verbatim>\<open>CamServer\<close> create them.
\<close>

record channels =
  requests :: queue
  responses :: queue

definition TemServer :: channels where
  "TemServer = \<lparr>requests = Queue 1, responses = Queue 1\<rparr>"

definition CamServer :: channels where
  "CamServer = \<lparr>requests = Queue 1, responses = Queue 1\<rparr>"

text \<open>
  The four places where the server touches a channel: \<^verbatim>\<open>requests.put(data)\<close> and
  \<^verbatim>\<open>responses.get()\<close> in \<^verbatim>\<open>handle\<close>, \<^verbatim>\<open>requests.get(timeout=TIMEOUT)\<close> and
  \<^verbatim>\<open>responses.put((status, ret))\<close> in \<^verbatim>\<open>DeviceServer.run\<close>. The threads interleave
  them in any order; an operation that cannot go through leaves no successor.
\<close>

datatype channel_op = Submit pyval | Take | Publish pyval | Retrieve

fun channel_step :: "channels \<Rightarrow> channel_op \<Rightarrow> channels option" where
  "channel_step c (Submit cmd) = map_option (\<lambda>q. c\<lparr>requests := q\<rparr>) (Queue_put (requests c) cmd)"
| "channel_step c Take = map_option (\<lambda>(cmd, q). c\<lparr>requests := q\<rparr>) (Queue_get (requests c))"
| "channel_step c (Publish r) = map_option (\<lambda>q. c\<lparr>responses := q\<rparr>) (Queue_put (responses c) r)"
| "channel_step c Retrieve = map_option (\<lambda>(r, q). c\<lparr>responses := q\<rparr>) (Queue_get (responses c))"

fun channel_steps :: "channels \<Rightarrow> channel_op list \<Rightarrow> channels option" where
  "channel_steps c [] = Some c"
| "channel_steps c (op # ops) =
     (case channel_step c op of None \<Rightarrow> None | Some c' \<Rightarrow> channel_steps c' ops)"

definition single_slot :: "channels \<Rightarrow> bool" where
  "single_slot c = (length (items (requests c)) \<le> 1 \<and> length (items (responses c)) \<le> 1)"

text \<open>The invariant of a server's channels: single slots, of capacity one.\<close>

definition channel_inv :: "channels \<Rightarrow> bool" where
  "channel_inv c = (single_slot c \<and> maxsize (requests c) = 1 \<and> maxsize (responses c) = 1)"

section \<open>Startup\<close>

text \<open>
  The \<^verbatim>\<open>for _ in range(100)\<close> of \<^verbatim>\<open>main\<close>: \<open>ready i\<close> is what poll \<open>i\<close> of
  \<^verbatim>\<open>getattr(tem_server, 'tem') is not None\<close> reads. \<open>True\<close>: left through
  \<^verbatim>\<open>break\<close>; \<open>False\<close>: the range was used up, and the \<^verbatim>\<open>else\<close> branch runs.
\<close>

fun wait_for_tem :: "(nat \<Rightarrow> bool) \<Rightarrow> nat \<Rightarrow> nat \<Rightarrow> bool" where
  "wait_for_tem ready i 0 = False"
| "wait_for_tem ready i (Suc n) = (if ready i then True else wait_for_tem ready (Suc i) n)"

datatype thread = tem_server | tem_listener | cam_server | cam_listener

text \<open>
  \<^verbatim>\<open>main\<close> from the start of the servers to the wait for the stop event (lines 197 to 220),
  for a value of \<^verbatim>\<open>options.camera\<close>: the exception raised, or the threads started.
\<close>

definition main :: "bool \<Rightarrow> (nat \<Rightarrow> bool) \<Rightarrow> exn + thread list" where
  "main camera ready =
     (let threads = [tem_server, tem_listener]
      in if camera then
           (if wait_for_tem ready 0 100 then Inr (threads @ [cam_server, cam_listener])
            else Inl (Exn ''RuntimeError''
                        [PStr ''Could not start TEM device on server in 5 seconds'']))
         else Inr threads)"

text \<open>A microscope that is never initialised.\<close>

definition never_ready :: "nat \<Rightarrow> bool" where
  "never_ready i = False"

section \<open>Configuration\<close>

text \<open>
  \<^verbatim>\<open>NS\<close>, the namespace class of \<^verbatim>\<open>utils/config.py\<close>: named fields whose values are
  namespaces again or plain values.
\<close>

datatype nsval = Plain pyval | NS "(string \<times> nsval) list"

text \<open>
  \<^verbatim>\<open>dict_to_namespace\<close>: a dictionary becomes a namespace, its values converted in turn;
  any other value is returned as it is. \<^verbatim>\<open>NS(**{...})\<close> raises \<^verbatim>\<open>TypeError\<close> on
  a key that is not a string.
\<close>

fun dict_to_namespace :: "pyval \<Rightarrow> exn + nsval"
  and namespace_items :: "(pyval \<times> pyval) list \<Rightarrow> exn + (string \<times> nsval) list" where
  "dict_to_namespace (PDict kvs) =
     (case namespace_items kvs of Inl e \<Rightarrow> Inl e | Inr ns \<Rightarrow> Inr (NS ns))"
| "dict_to_namespace v = Inr (Plain v)"
| "namespace_items [] = Inr []"
| "namespace_items ((k, v) # kvs) =
     (case dict_to_namespace v of
        Inl e \<Rightarrow> Inl e
      | Inr x \<Rightarrow>
          (case namespace_items kvs of
             Inl e \<Rightarrow> Inl e
           | Inr ns \<Rightarrow>
               (case k of
                  PStr n \<Rightarrow> Inr ((n, x) # ns)
                | _ \<Rightarrow> Inl (TypeError ''keywords must be strings''))))"

text \<open>\<^verbatim>\<open>d[key]\<close> and \<^verbatim>\<open>d[key] = v\<close> for a string key.\<close>

definition py_getitem :: "pyval \<Rightarrow> string \<Rightarrow> exn + pyval" where
  "py_getitem d key =
     (case d of
        PDict kvs \<Rightarrow>
          (case map_of kvs (PStr key) of
             Some v \<Rightarrow> Inr v
           | None \<Rightarrow> Inl (Exn ''KeyError'' [PStr key]))
      | PStr _ \<Rightarrow> Inl (TypeError ''string indices must be integers'')
      | PTuple _ \<Rightarrow> Inl (TypeError ''tuple indices must be integers or slices, not str'')
      | PList _ \<Rightarrow> Inl (TypeError ''list indices must be integers or slices, not str'')
      | _ \<Rightarrow> Inl (TypeError (quoted (type_name d) @ '' object is not subscriptable'')))"

definition py_setitem :: "pyval \<Rightarrow> string \<Rightarrow> pyval \<Rightarrow> exn + pyval" where
  "py_setitem d key v =
     (case d of
        PDict kvs \<Rightarrow> Inr (PDict (AList.update (PStr key) v kvs))
      | PList _ \<Rightarrow> Inl (TypeError ''list indices must be integers or slices, not str'')
      | _ \<Rightarrow> Inl (TypeError (quoted (type_name d) @ '' object does not support item assignment'')))"

text \<open>
  The files of the package directory are a parameter \<open>fs\<close>: for a file name, what
  \<^verbatim>\<open>with open(file, 'r') as stream: yaml.safe_load(stream)\<close> gives, the loaded value or
  the exception raised. The builtin \<^verbatim>\<open>str\<close> is a parameter too.
\<close>

definition settings :: "(string \<Rightarrow> exn + pyval) \<Rightarrow> exn + pyval" where
  "settings fs = fs ''settings.yaml''"

definition microscope ::
  "(string \<Rightarrow> exn + pyval) \<Rightarrow> (pyval \<Rightarrow> string) \<Rightarrow> pyval \<Rightarrow> exn + (pyval \<times> pyval \<times> pyval)" where
  "microscope fs str default_settings =
     (case py_getitem default_settings ''microscope'' of
        Inl e \<Rightarrow> Inl e
      | Inr name \<Rightarrow>
          (case fs (str name @ ''.yaml'') of
             Inl e \<Rightarrow> Inl e
           | Inr dflt \<Rightarrow>
               (case py_getitem dflt ''interface'' of
                  Inl e \<Rightarrow> Inl e
                | Inr interface \<Rightarrow>
                    (case py_getitem dflt ''wavelength'' of
                       Inl e \<Rightarrow> Inl e
                     | Inr wavelength \<Rightarrow>
                         (case py_getitem dflt ''ranges'' of
                            Inl e \<Rightarrow> Inl e
                          | Inr micr_ranges \<Rightarrow> Inr (interface, wavelength, micr_ranges))))))"

definition load_camera_config ::
  "(string \<Rightarrow> exn + pyval) \<Rightarrow> (pyval \<Rightarrow> string) \<Rightarrow> pyval \<Rightarrow> exn + nsval" where
  "load_camera_config fs str default_settings =
     (case py_getitem default_settings ''camera'' of
        Inl e \<Rightarrow> Inl e
      | Inr name \<Rightarrow>
          (case fs (str name @ ''.yaml'') of
             Inl e \<Rightarrow> Inl e
           | Inr loaded \<Rightarrow> dict_to_namespace loaded))"

record config =
  default_settings :: pyval
  micr_interface :: pyval
  micr_wavelength :: pyval
  micr_ranges :: pyval
  camera :: nsval

text \<open>
  \<^verbatim>\<open>config.__init__(self, name=None)\<close>. \<^verbatim>\<open>except FileNotFoundError\<close> is the test on
  the class name of the exception.
\<close>

definition config_init ::
  "(string \<Rightarrow> exn + pyval) \<Rightarrow> (pyval \<Rightarrow> string) \<Rightarrow> pyval \<Rightarrow> exn + config" where
  "config_init fs str name =
     (case settings fs of
        Inl e \<Rightarrow> Inl e
      | Inr loaded \<Rightarrow>
          (case (if name \<noteq> PNone then py_setitem loaded ''microscope'' name else Inr loaded) of
             Inl e \<Rightarrow> Inl e
           | Inr ds \<Rightarrow>
               (case microscope fs str ds of
                  Inl e \<Rightarrow> Inl e
                | Inr (interface, wavelength, ranges) \<Rightarrow>
                    (case load_camera_config fs str ds of
                       Inl e \<Rightarrow>
                         (if ename e = ''FileNotFoundError''
                          then Inr \<lparr>default_settings = ds, micr_interface = interface,
                                    micr_wavelength = wavelength, micr_ranges = ranges,
                                    camera = NS []\<rparr>
                          else Inl e)
                     | Inr cam \<Rightarrow>
                         Inr \<lparr>default_settings = ds, micr_interface = interface,
                              micr_wavelength = wavelength, micr_ranges = ranges,
                              camera = cam\<rparr>))))"

text \<open>
  A package directory with a settings file and a microscope file and no camera file, and
  a \<^verbatim>\<open>str\<close> that is right on strings.
\<close>

definition FileNotFoundError :: exn where
  "FileNotFoundError = Exn ''FileNotFoundError'' [PInt 2, PStr ''No such file or directory'']"

definition stub_fs :: "string \<Rightarrow> exn + pyval" where
  "stub_fs file =
     (if file = ''settings.yaml'' then
        Inr (PDict [(PStr ''microscope'', PStr ''simulate''), (PStr ''camera'', PStr ''tecnai'')])
      else if file = ''simulate.yaml'' then
        Inr (PDict [(PStr ''interface'', PStr ''simulate''), (PStr ''wavelength'', PFloat 25 (-3)),
                    (PStr ''ranges'', PDict [])])
      else Inl FileNotFoundError)"

fun stub_str :: "pyval \<Rightarrow> string" where
  "stub_str (PStr s) = s"
| "stub_str v = type_name v"

section \<open>A stub device\<close>

text \<open>
  A device to run the server on: \<^verbatim>\<open>echo\<close> returns its single argument,
  \<^verbatim>\<open>boom\<close> raises \<^verbatim>\<open>DeviceFault("overheat")\<close>, \<^verbatim>\<open>get_binning\<close> returns 1, and
  \<^verbatim>\<open>dimensions\<close> is a plain attribute, the tuple \<^verbatim>\<open>(2048, 2048)\<close>. Its state counts
  the methods that were run.
\<close>

definition stub_invoke ::
  "string \<Rightarrow> pyval list \<Rightarrow> (string \<times> pyval) list \<Rightarrow> nat \<Rightarrow> (raised + pyval) \<times> nat" where
  "stub_invoke m xs ks n =
     (if m = ''echo'' then
        (case (xs, ks) of
           ([x], []) \<Rightarrow> (Inr x, Suc n)
         | _ \<Rightarrow> (Inl (Error (TypeError ''echo() takes exactly one argument'')), n))
      else if m = ''boom'' then (Inl (Error (Exn ''DeviceFault'' [PStr ''overheat''])), Suc n)
      else (Inr (PInt 1), Suc n))"

definition stub :: "nat device" where
  "stub =
     \<lparr>class_name = ''Stub'',
      attributes = (\<lambda>n. map_of
        [(''echo'', PMethod ''echo''),
         (''boom'', PMethod ''boom''),
         (''get_binning'', PMethod ''get_binning''),
         (''dimensions'', PTuple [PInt 2048, PInt 2048])]),
      invoke = stub_invoke\<rparr>"




text \<open>
  A toy serializer to run the handler on: the chunks \<^verbatim>\<open>exit\<close> and \<^verbatim>\<open>kill\<close> decode to
  these strings, any other chunk to a command that names an operation; a response is
  encoded by its status.
\<close>

definition stub_loader :: "string \<Rightarrow> exn + pyval" where
  "stub_loader data =
     (if data = ''exit'' \<or> data = ''kill'' then Inr (PStr data)
      else Inr (PDict [(PStr ''func_name'', PStr data)]))"

definition stub_dumper :: "pyval \<Rightarrow> exn + string" where
  "stub_dumper v =
     (case v of
        PTuple [PInt status, payload] \<Rightarrow> Inr (if status = 200 then ''ok'' else ''error'')
      | _ \<Rightarrow> Inl (TypeError ''cannot serialize''))"

section \<open>Facts about the dispatch loop\<close>

lemma run_body_dict:
  "run_body D s (PDict kvs) =
     (case evaluate D s (cmd_func_name kvs) (cmd_args kvs) (cmd_kwargs kvs) of
        (Inr ret, s') \<Rightarrow> Inr (PTuple [PInt 200, ret], s')
      | (Inl (Error e), s') \<Rightarrow>
          Inr (PTuple [PInt 500, PTuple [PStr (ename e), PTuple (eargs e)]], s')
      | (Inl (Signal e), s') \<Rightarrow> Inl e)"
  by (simp add: run_body_def)


lemma run_body_success:
  "evaluate D s (cmd_func_name kvs) (cmd_args kvs) (cmd_kwargs kvs) = (Inr v, s') \<Longrightarrow>
   run_body D s (PDict kvs) = Inr (PTuple [PInt 200, v], s')"
  by (simp add: run_body_dict)




lemma stub_simps:
  "class_name stub = ''Stub''"
  "invoke stub = stub_invoke"
  "attributes stub s ''echo'' = Some (PMethod ''echo'')"
  "attributes stub s ''boom'' = Some (PMethod ''boom'')"
  "attributes stub s ''get_binning'' = Some (PMethod ''get_binning'')"
  "attributes stub s ''dimensions'' = Some (PTuple [PInt 2048, PInt 2048])"
  "attributes stub s ''nope'' = None"
  by (simp_all add: stub_def)



lemmas eval_defs = run_body_def evaluate_def py_getattr_def py_call_def cmd_func_name_def
  cmd_args_def cmd_kwargs_def dict_get_def unpack_args_def unpack_kwargs_def stub_invoke_def




lemma evaluate_method:
  assumes "func_name = PStr n" and "attributes D s n = Some (PMethod m)"
    and "unpack_args args = Inr xs" and "unpack_kwargs kwargs = Inr kws"
    and "keyword_args kws = Inr ks"
  shows "evaluate D s func_name args kwargs = invoke D m xs ks s"
  using assms by (simp add: evaluate_def py_getattr_def py_call_def)

lemma evaluate_unknown:
  assumes "func_name = PStr n" and "attributes D s n = None"
  shows "evaluate D s func_name args kwargs = (Inl (Error (AttributeError (class_name D) n)), s)"
  using assms by (simp add: evaluate_def py_getattr_def)



text \<open>
  Claim C4. For a command whose selector names no attribute of the device, the published
  response is the failure \<^verbatim>\<open>(500, ('AttributeError', args))\<close>, and the device is left as
  it was.
\<close>

theorem unknown_selector_gives_AttributeError:
  assumes "cmd_func_name kvs = PStr n" and "attributes D s n = None"
  shows "run_body D s (PDict kvs)
           = Inr (PTuple [PInt 500,
                          PTuple [PStr ''AttributeError'',
                                  PTuple (eargs (AttributeError (class_name D) n))]], s)"
  using evaluate_unknown[OF assms] by (simp add: run_body_dict AttributeError_def)

theorem unknown_selector_gives_AttributeError_witness:
  "cmd_func_name [(PStr ''func_name'', PStr ''nope'')] = PStr ''nope''
   \<and> attributes stub 0 ''nope'' = None
   \<and> run_body stub 0 (PDict [(PStr ''func_name'', PStr ''nope'')])
       = Inr (PTuple [PInt 500,
                      PTuple [PStr ''AttributeError'',
                              PTuple (eargs (AttributeError ''Stub'' ''nope''))]], 0)"
proof -
  have 1: "cmd_func_name [(PStr ''func_name'', PStr ''nope'')] = PStr ''nope''"
    by (simp add: cmd_func_name_def dict_get_def)
  have 2: "attributes stub 0 ''nope'' = None" by (simp add: stub_simps)
  from unknown_selector_gives_AttributeError[OF 1 2] 1 2 show ?thesis by (simp add: stub_simps)
qed

lemma run_body_cong:
  assumes "cmd_func_name kvs' = cmd_func_name kvs" "cmd_args kvs' = cmd_args kvs"
    "cmd_kwargs kvs' = cmd_kwargs kvs"
  shows "run_body D s (PDict kvs') = run_body D s (PDict kvs)"
  using assms by (simp add: run_body_dict)

text \<open>
  Claim C9. When a command has the key \<^verbatim>\<open>func_name\<close>, its value is the selector: the
  pass does what the evaluation of that selector gives (no exception is raised for the
  two keys), and it does the same for every command that differs from it in the key
  \<^verbatim>\<open>attr_name\<close> only: present or absent, with any value. The value of
  \<^verbatim>\<open>attr_name\<close> is the selector only when \<^verbatim>\<open>func_name\<close> is absent.
\<close>

theorem func_name_takes_precedence:
  "(map_of kvs (PStr ''func_name'') = Some f \<longrightarrow>
      cmd_func_name kvs = f \<and>
      run_body D s (PDict kvs) =
        (case evaluate D s f (cmd_args kvs) (cmd_kwargs kvs) of
           (Inr ret, s') \<Rightarrow> Inr (PTuple [PInt 200, ret], s')
         | (Inl (Error e), s') \<Rightarrow>
             Inr (PTuple [PInt 500, PTuple [PStr (ename e), PTuple (eargs e)]], s')
         | (Inl (Signal e), s') \<Rightarrow> Inl e) \<and>
      (\<forall>kvs'. (\<forall>k. k \<noteq> PStr ''attr_name'' \<longrightarrow> map_of kvs' k = map_of kvs k) \<longrightarrow>
               run_body D s (PDict kvs') = run_body D s (PDict kvs)))
   \<and> (map_of kvs (PStr ''func_name'') = None \<longrightarrow>
        cmd_func_name kvs = dict_get kvs ''attr_name'' PNone)"
proof (intro conjI impI allI)
  assume f: "map_of kvs (PStr ''func_name'') = Some f"
  then show sel: "cmd_func_name kvs = f" by (simp add: cmd_func_name_def dict_get_def)
  then show "run_body D s (PDict kvs) =
        (case evaluate D s f (cmd_args kvs) (cmd_kwargs kvs) of
           (Inr ret, s') \<Rightarrow> Inr (PTuple [PInt 200, ret], s')
         | (Inl (Error e), s') \<Rightarrow>
             Inr (PTuple [PInt 500, PTuple [PStr (ename e), PTuple (eargs e)]], s')
         | (Inl (Signal e), s') \<Rightarrow> Inl e)"
    by (simp add: run_body_dict)
  fix kvs'
  assume agree: "\<forall>k. k \<noteq> PStr ''attr_name'' \<longrightarrow> map_of kvs' k = map_of kvs k"
  then have "map_of kvs' (PStr ''func_name'') = Some f"
    and "map_of kvs' (PStr ''args'') = map_of kvs (PStr ''args'')"
    and "map_of kvs' (PStr ''kwargs'') = map_of kvs (PStr ''kwargs'')"
    using f by simp_all
  then show "run_body D s (PDict kvs') = run_body D s (PDict kvs)"
    using f
    by (intro run_body_cong)
       (simp_all add: cmd_func_name_def cmd_args_def cmd_kwargs_def dict_get_def)
next
  assume "map_of kvs (PStr ''func_name'') = None"
  then show "cmd_func_name kvs = dict_get kvs ''attr_name'' PNone"
    by (simp add: cmd_func_name_def dict_get_def)
qed

theorem func_name_takes_precedence_witness:
  "run_body stub 0 (PDict [(PStr ''attr_name'', PStr ''boom''), (PStr ''func_name'', PStr ''echo''),
                           (PStr ''args'', PTuple [PInt 42])])
     = Inr (PTuple [PInt 200, PInt 42], 1)
   \<and> run_body stub 0 (PDict [(PStr ''func_name'', PStr ''echo''), (PStr ''args'', PTuple [PInt 42])])
     = Inr (PTuple [PInt 200, PInt 42], 1)
   \<and> cmd_func_name [(PStr ''attr_name'', PStr ''boom'')] = PStr ''boom''"
  using func_name_takes_precedence[of "[(PStr ''func_name'', PStr ''echo''), (PStr ''args'', PTuple [PInt 42])]"
             "PStr ''echo''" stub 0]
        func_name_takes_precedence[of "[(PStr ''attr_name'', PStr ''boom'')]" PNone stub 0]
  by (simp add: eval_defs stub_simps)

text \<open>
  Claim C3, as amended. For a command with the key \<^verbatim>\<open>attr_name\<close> and without
  \<^verbatim>\<open>func_name\<close>, whose attribute is a method of the device: the method is invoked on
  the command's arguments, and when it returns \<open>v\<close> the published response is
  \<^verbatim>\<open>(200, v)\<close>, with the device in the state the method left it in.
\<close>

theorem attr_name_invokes_method:
  assumes "map_of kvs (PStr ''func_name'') = None"
    and "map_of kvs (PStr ''attr_name'') = Some (PStr n)"
    and "attributes D s n = Some (PMethod m)"
    and "unpack_args (cmd_args kvs) = Inr xs"
    and "unpack_kwargs (cmd_kwargs kvs) = Inr kws"
    and "keyword_args kws = Inr ks"
    and "invoke D m xs ks s = (Inr v, s')"
  shows "run_body D s (PDict kvs) = Inr (PTuple [PInt 200, v], s')"
proof -
  have "cmd_func_name kvs = PStr n"
    using assms(1,2) by (simp add: cmd_func_name_def dict_get_def)
  from evaluate_method[OF this assms(3-6)] assms(7) show ?thesis
    by (simp add: run_body_dict)
qed

theorem attr_name_invokes_method_witness:
  "run_body stub 0 (PDict [(PStr ''attr_name'', PStr ''get_binning'')])
     = Inr (PTuple [PInt 200, PInt 1], 1)"
  by (rule attr_name_invokes_method[where n = "''get_binning''" and m = "''get_binning''" and xs = "[]"
        and kws = "[]" and ks = "[]"])
     (simp_all add: cmd_args_def cmd_kwargs_def dict_get_def stub_simps
          unpack_args_def unpack_kwargs_def stub_invoke_def)

text \<open>
  Claim C3 as stated fails: on the stub, the attribute \<^verbatim>\<open>get_binning\<close> is a bound
  method; the command \<^verbatim>\<open>{'attr_name': 'get_binning'}\<close> runs it (the state goes from 0
  to 1) and the payload is its return value 1, not the attribute.
\<close>

theorem attr_name_read_counterexample:
  "attributes stub 0 ''get_binning'' = Some (PMethod ''get_binning'')
   \<and> run_body stub 0 (PDict [(PStr ''attr_name'', PStr ''get_binning'')])
       = Inr (PTuple [PInt 200, PInt 1], 1)
   \<and> run_body stub 0 (PDict [(PStr ''attr_name'', PStr ''get_binning'')])
       \<noteq> Inr (PTuple [PInt 200, PMethod ''get_binning''], 0)"
  by (simp add: eval_defs stub_simps)

section \<open>Facts about the handler and the listener\<close>

lemma handle_append:
  "handle loader dumper (pre @ rest) =
     (if snd (handle loader dumper pre) = Receiving
      then (fst (handle loader dumper pre) @ fst (handle loader dumper rest),
            snd (handle loader dumper rest))
      else handle loader dumper pre)"
proof (induction pre)
  case Nil
  show ?case by simp
next
  case (Cons t pre)
  then show ?case
    by (auto split: sum.splits option.splits prod.splits)
qed

lemma handle_closing:
  assumes "received t = Inr data"
    and "data = [] \<or> loader data = Inr (PStr ''exit'') \<or> loader data = Inr (PStr ''kill'')"
  shows "handle loader dumper (t # ts) = ([], Returned)"
  using assms by auto

text \<open>
  Claim C5. After any number of completed round trips, when the handler reads an empty
  chunk, or a chunk that decodes to \<^verbatim>\<open>'exit'\<close> or \<^verbatim>\<open>'kill'\<close>, it returns (which
  closes the connection): it has put and sent what the earlier round trips put and
  sent, and nothing for this chunk or after it.
\<close>

theorem handle_closes_without_submitting:
  assumes "snd (handle loader dumper pre) = Receiving"
    and "received t = Inr data"
    and "data = [] \<or> loader data = Inr (PStr ''exit'') \<or> loader data = Inr (PStr ''kill'')"
  shows "handle loader dumper (pre @ t # ts) = (fst (handle loader dumper pre), Returned)"
  using assms(1) handle_closing[of t data loader dumper ts, OF assms(2,3)]
  by (simp add: handle_append)


lemma stub_codec:
  "stub_loader ''echo'' = Inr (PDict [(PStr ''func_name'', PStr ''echo'')])"
  "stub_loader ''exit'' = Inr (PStr ''exit'')"
  "stub_loader ''kill'' = Inr (PStr ''kill'')"
  "stub_dumper (PTuple [PInt 200, v]) = Inr ''ok''"
  by (simp_all add: stub_loader_def stub_dumper_def)

theorem handle_closes_without_submitting_witness:
  "handle stub_loader stub_dumper
     ([\<lparr>stop_is_set = False, received = Inr ''echo'',
        response = Some (PTuple [PInt 200, PNone]), send_raises = None\<rparr>]
      @ \<lparr>stop_is_set = False, received = Inr ''exit'',
          response = Some (PTuple [PInt 200, PNone]), send_raises = None\<rparr>
      # [\<lparr>stop_is_set = False, received = Inr ''echo'',
           response = Some (PTuple [PInt 200, PNone]), send_raises = None\<rparr>])
   = ([Put (PDict [(PStr ''func_name'', PStr ''echo'')]), Send ''ok''], Returned)"
proof -
  let ?pre = "[\<lparr>stop_is_set = False, received = Inr ''echo'',
        response = Some (PTuple [PInt 200, PNone]), send_raises = None\<rparr>]"
  have pre: "handle stub_loader stub_dumper ?pre
        = ([Put (PDict [(PStr ''func_name'', PStr ''echo'')]), Send ''ok''], Receiving)"
    by (simp add: stub_codec)
  then have 1: "snd (handle stub_loader stub_dumper ?pre) = Receiving" by simp
  show ?thesis
    using handle_closes_without_submitting[OF 1, where data = "''exit''" and t = "\<lparr>stop_is_set = False, received = Inr ''exit'',
          response = Some (PTuple [PInt 200, PNone]), send_raises = None\<rparr>"] pre
    by (simp add: stub_codec)
qed

text \<open>
  Claim C6, as amended. The listener calls the handler of an accepted connection in its
  own thread of execution: when the handler has returned or raised, the listener goes on
  to the next accept; while the handler is blocked (in \<^verbatim>\<open>recv\<close> or in
  \<^verbatim>\<open>responses.get\<close>), the listener stays in the call, whatever connections come next.
\<close>

theorem listen_calls_handle_inline:
  "(handle loader dumper turns = (as, st) \<and> (st = Returned \<or> st = Raised e) \<longrightarrow>
      listen loader dumper (\<lparr>stop_seen = False, accept = Connection turns\<rparr> # vs)
        = ((as, st) # fst (listen loader dumper vs), snd (listen loader dumper vs)))
   \<and> (handle loader dumper turns = (as, st) \<and> (st = Receiving \<or> st = Waiting) \<longrightarrow>
      listen loader dumper (\<lparr>stop_seen = False, accept = Connection turns\<rparr> # vs)
        = ([(as, st)], Serving))"
  by (auto split: prod.splits)

theorem listen_calls_handle_inline_witness:
  "listen stub_loader stub_dumper
     [\<lparr>stop_seen = False, accept = Connection
         [\<lparr>stop_is_set = False, received = Inr ''exit'', response = None, send_raises = None\<rparr>]\<rparr>,
      \<lparr>stop_seen = False, accept = Connection
         [\<lparr>stop_is_set = False, received = Inr ''echo'', response = None, send_raises = None\<rparr>]\<rparr>,
      \<lparr>stop_seen = False, accept = Connection []\<rparr>]
   = ([([], Returned), ([Put (PDict [(PStr ''func_name'', PStr ''echo'')])], Waiting)], Serving)"
  using listen_calls_handle_inline[of stub_loader stub_dumper
      "[\<lparr>stop_is_set = False, received = Inr ''exit'', response = None, send_raises = None\<rparr>]"
      "[]" Returned]
    listen_calls_handle_inline[of stub_loader stub_dumper
      "[\<lparr>stop_is_set = False, received = Inr ''echo'', response = None, send_raises = None\<rparr>]"
      "[Put (PDict [(PStr ''func_name'', PStr ''echo'')])]" Waiting]
  by (simp add: stub_codec)

text \<open>
  Claim C6 as stated fails: two clients connect; the first makes one round trip and keeps
  its connection open. The listener is inside the handler of the first connection, and the
  second connection is not accepted: the result has one entry.
\<close>

theorem listen_spawns_no_thread_counterexample:
  "listen stub_loader stub_dumper
     [\<lparr>stop_seen = False, accept = Connection
         [\<lparr>stop_is_set = False, received = Inr ''echo'',
           response = Some (PTuple [PInt 200, PNone]), send_raises = None\<rparr>]\<rparr>,
      \<lparr>stop_seen = False, accept = Connection
         [\<lparr>stop_is_set = False, received = Inr ''echo'',
           response = Some (PTuple [PInt 200, PNone]), send_raises = None\<rparr>]\<rparr>]
   = ([([Put (PDict [(PStr ''func_name'', PStr ''echo'')]), Send ''ok''], Receiving)], Serving)"
  by (simp add: stub_codec)


section \<open>Facts about the channels\<close>

lemma Queue_put_bound:
  "maxsize q = 1 \<Longrightarrow> Queue_put q x = Some q' \<Longrightarrow> length (items q') \<le> 1 \<and> maxsize q' = 1"
  by (cases "items q") (auto simp: Queue_put_def Queue_full_def split: if_splits)

lemma Queue_get_bound:
  "length (items q) \<le> 1 \<Longrightarrow> Queue_get q = Some (x, q') \<Longrightarrow>
     length (items q') \<le> 1 \<and> maxsize q' = maxsize q"
  by (auto simp: Queue_get_def split: list.splits)

lemma channel_step_inv:
  assumes "channel_inv c" and "channel_step c op = Some c'"
  shows "channel_inv c'"
proof (cases op)
  case (Submit cmd)
  with assms show ?thesis
    using Queue_put_bound[of "requests c" cmd]
    by (auto simp: channel_inv_def single_slot_def)
next
  case Take
  with assms show ?thesis
    using Queue_get_bound[of "requests c"]
    by (auto simp: channel_inv_def single_slot_def)
next
  case (Publish r)
  with assms show ?thesis
    using Queue_put_bound[of "responses c" r]
    by (auto simp: channel_inv_def single_slot_def)
next
  case Retrieve
  with assms show ?thesis
    using Queue_get_bound[of "responses c"]
    by (auto simp: channel_inv_def single_slot_def)
qed

lemma channel_steps_inv:
  "channel_inv c \<Longrightarrow> channel_steps c ops = Some c' \<Longrightarrow> channel_inv c'"
proof (induction ops arbitrary: c)
  case Nil
  then show ?case by simp
next
  case (Cons op ops)
  then show ?case
    by (auto split: option.splits dest: channel_step_inv)
qed

lemma channel_inv_init: "channel_inv TemServer" "channel_inv CamServer"
  by (simp_all add: channel_inv_def single_slot_def TemServer_def CamServer_def Queue_def)

text \<open>
  Claim C7. In every state that the channels of \<^verbatim>\<open>TemServer\<close> or \<^verbatim>\<open>CamServer\<close>
  reach by puts and gets, in any interleaving, the request queue and the response queue
  hold at most one element each, and every put or get that goes through from there leads
  to such a state again.
\<close>

theorem channels_hold_at_most_one:
  assumes "c0 = TemServer \<or> c0 = CamServer" and "channel_steps c0 ops = Some c"
  shows "single_slot c \<and> (\<forall>op c'. channel_step c op = Some c' \<longrightarrow> single_slot c')"
proof -
  from assms(1) have "channel_inv c0" using channel_inv_init by auto
  from channel_steps_inv[OF this assms(2)] have inv: "channel_inv c" .
  then show ?thesis
    using channel_step_inv[OF inv] by (auto simp: channel_inv_def)
qed


lemmas queue_defs = TemServer_def CamServer_def Queue_def Queue_put_def Queue_get_def
  Queue_full_def single_slot_def

theorem channels_hold_at_most_one_witness:
  "channel_steps TemServer [Submit (PStr ''a''), Take, Publish (PStr ''b'')]
     = Some \<lparr>requests = \<lparr>maxsize = 1, items = []\<rparr>,
             responses = \<lparr>maxsize = 1, items = [PStr ''b'']\<rparr>\<rparr>
   \<and> single_slot \<lparr>requests = \<lparr>maxsize = 1, items = []\<rparr>,
                   responses = \<lparr>maxsize = 1, items = [PStr ''b'']\<rparr>\<rparr>
   \<and> channel_step \<lparr>requests = \<lparr>maxsize = 1, items = []\<rparr>,
                    responses = \<lparr>maxsize = 1, items = [PStr ''b'']\<rparr>\<rparr> (Publish (PStr ''c'')) = None
   \<and> channel_steps CamServer [Submit (PStr ''a''), Submit (PStr ''b'')] = None"
proof -
  have 1: "channel_steps TemServer [Submit (PStr ''a''), Take, Publish (PStr ''b'')]
     = Some \<lparr>requests = \<lparr>maxsize = 1, items = []\<rparr>,
             responses = \<lparr>maxsize = 1, items = [PStr ''b'']\<rparr>\<rparr>"
    by (simp add: queue_defs)
  from channels_hold_at_most_one[OF _ 1] show ?thesis
    using 1 by (simp add: queue_defs)
qed

section \<open>Facts about startup and configuration\<close>

lemma wait_for_tem_iff: "wait_for_tem ready i n \<longleftrightarrow> (\<exists>j<n. ready (i + j))"
proof (induction n arbitrary: i)
  case 0
  show ?case by simp
next
  case (Suc n)
  show ?case
  proof
    assume "wait_for_tem ready i (Suc n)"
    then consider "ready i" | "wait_for_tem ready (Suc i) n" by (auto split: if_splits)
    then show "\<exists>j<Suc n. ready (i + j)"
    proof cases
      case 1
      then have "ready (i + 0)" by simp
      then show ?thesis by blast
    next
      case 2
      with Suc.IH obtain j where "j < n" "ready (Suc i + j)" by blast
      then have "Suc j < Suc n" "ready (i + Suc j)" by simp_all
      then show ?thesis by blast
    qed
  next
    assume "\<exists>j<Suc n. ready (i + j)"
    then obtain j where j: "j < Suc n" "ready (i + j)" by blast
    show "wait_for_tem ready i (Suc n)"
    proof (cases j)
      case 0
      with j show ?thesis by simp
    next
      case (Suc k)
      with j have "k < n" "ready (Suc i + k)" by simp_all
      with Suc.IH have "wait_for_tem ready (Suc i) n" by blast
      then show ?thesis by simp
    qed
  qed
qed

text \<open>
  Claim C8, as amended. \<^verbatim>\<open>main\<close> raises during startup exactly when the camera option
  is selected and each of the 100 polls finds the microscope uninitialised; the
  exception is \<^verbatim>\<open>RuntimeError('Could not start TEM device on server in 5 seconds')\<close>.
\<close>

theorem main_raises_on_startup_timeout:
  "main with_camera ready = Inl e \<longleftrightarrow>
     with_camera \<and> (\<forall>i<100. \<not> ready i) \<and>
     e = Exn ''RuntimeError'' [PStr ''Could not start TEM device on server in 5 seconds'']"
  by (auto simp: main_def Let_def wait_for_tem_iff split: if_splits)

theorem main_raises_on_startup_timeout_witness:
  "main True never_ready
     = Inl (Exn ''RuntimeError'' [PStr ''Could not start TEM device on server in 5 seconds''])"
  using main_raises_on_startup_timeout[of True never_ready]
  by (simp add: never_ready_def)

text \<open>
  Claim C8 as stated fails: without the camera option there is no wait, and with a
  microscope that is never initialised \<^verbatim>\<open>main\<close> raises nothing and goes on to wait
  for the stop event with its two threads.
\<close>

theorem main_without_camera_counterexample:
  "main False never_ready = Inr [tem_server, tem_listener]"
  by (simp add: main_def)

text \<open>
  Claim C10. When the settings and the microscope file load, whatever value the settings
  give for \<^verbatim>\<open>camera\<close>: if opening the camera file raises \<^verbatim>\<open>FileNotFoundError\<close>,
  \<^verbatim>\<open>config.__init__\<close> returns a configuration whose camera is the empty namespace.
\<close>

theorem config_init_catches_missing_camera_file:
  assumes "settings fs = Inr loaded"
    and "(if name \<noteq> PNone then py_setitem loaded ''microscope'' name else Inr loaded) = Inr ds"
    and "microscope fs str ds = Inr (interface, wavelength, ranges)"
    and "py_getitem ds ''camera'' = Inr cam"
    and "fs (str cam @ ''.yaml'') = Inl e"
    and "ename e = ''FileNotFoundError''"
  shows "config_init fs str name =
           Inr \<lparr>default_settings = ds, micr_interface = interface,
                micr_wavelength = wavelength, micr_ranges = ranges, camera = NS []\<rparr>"
proof -
  have "load_camera_config fs str ds = Inl e"
    using assms(4,5) by (simp add: load_camera_config_def)
  then show ?thesis
    using assms(1,2,3,6) by (simp add: config_init_def)
qed


theorem config_init_catches_missing_camera_file_witness:
  "config_init stub_fs stub_str PNone =
     Inr \<lparr>default_settings =
            PDict [(PStr ''microscope'', PStr ''simulate''), (PStr ''camera'', PStr ''tecnai'')],
          micr_interface = PStr ''simulate'', micr_wavelength = PFloat 25 (-3),
          micr_ranges = PDict [], camera = NS []\<rparr>"
  by (rule config_init_catches_missing_camera_file[where cam = "PStr ''tecnai''" and e = FileNotFoundError])
     (simp_all add: settings_def stub_fs_def microscope_def py_getitem_def FileNotFoundError_def)

end
